theory Spec2Isabelle
  imports Complex_Main "HOL-Library.AList"
begin

section \<open>Python values, exceptions and the document tree\<close>

text \<open>
  The program is one Python module, \<^verbatim>\<open>main.py\<close>. Exceptions are values of the type
  \<open>exn\<close>; a computation that may raise returns \<open>exn + 'a\<close>, with \<open>Inl\<close> the exception.
  Strings are byte strings (ASCII text). Timestamps and durations, Python floats in the
  source, are read as real numbers: the claims concern the branches taken, not rounding.
\<close>

datatype exn =
    KeyError | ValueError | AttributeError | TypeError
  | NoOptionError | NoSectionError | RequestException

text \<open>
  A node of the tree that BeautifulSoup builds: a text node (\<^verbatim>\<open>NavigableString\<close>) or a
  \<^verbatim>\<open>Tag\<close> with its name, its attribute dictionary and its children (\<^verbatim>\<open>.contents\<close>).
\<close>

datatype node = Text string | Tag string "(string \<times> string) list" "node list"

datatype pyval =
    PStr string | PNode node | PBool bool
  | PList "pyval list" | PDict "(string \<times> pyval) list"

definition bind_exn :: "exn + 'a \<Rightarrow> ('a \<Rightarrow> exn + 'b) \<Rightarrow> exn + 'b" where
  "bind_exn m f = (case m of Inl e \<Rightarrow> Inl e | Inr x \<Rightarrow> f x)"

subsection \<open>\<^verbatim>\<open>str.split()\<close> and \<^verbatim>\<open>str.split('.')\<close>\<close>

text \<open>The ASCII characters for which \<^verbatim>\<open>str.isspace\<close> holds.\<close>

definition py_isspace :: "char \<Rightarrow> bool" where
  "py_isspace c = (c \<in> set [CHR 0x09, CHR 0x0A, CHR 0x0B, CHR 0x0C, CHR 0x0D,
                             CHR 0x1C, CHR 0x1D, CHR 0x1E, CHR 0x1F, CHR 0x20])"

text \<open>\<open>split_acc cur s\<close>: the tokens of \<open>s\<close>, with \<open>cur\<close> the token being read.\<close>

fun split_acc :: "string \<Rightarrow> string \<Rightarrow> string list" where
  "split_acc cur [] = (if cur = [] then [] else [cur])"
| "split_acc cur (c # cs) =
     (if py_isspace c
      then (if cur = [] then split_acc [] cs else cur # split_acc [] cs)
      else split_acc (cur @ [c]) cs)"

definition split_ws :: "string \<Rightarrow> string list" where
  "split_ws s = split_acc [] s"

text \<open>\<^verbatim>\<open>s.split(d)\<close> for a one-character separator: empty pieces are kept.\<close>

fun split_on_acc :: "char \<Rightarrow> string \<Rightarrow> string \<Rightarrow> string list" where
  "split_on_acc d cur [] = [cur]"
| "split_on_acc d cur (c # cs) =
     (if c = d then cur # split_on_acc d [] cs else split_on_acc d (cur @ [c]) cs)"

definition split_on :: "char \<Rightarrow> string \<Rightarrow> string list" where
  "split_on d s = split_on_acc d [] s"

subsection \<open>Tree access: \<^verbatim>\<open>soup[key]\<close>, \<^verbatim>\<open>soup.find(class_=c)\<close>, \<^verbatim>\<open>.contents\<close>\<close>

text \<open>\<^verbatim>\<open>soup[key]\<close>: a tag looks the key up in its attributes; a string cannot be indexed by one.\<close>

definition get_attr :: "node \<Rightarrow> string \<Rightarrow> exn + string" where
  "get_attr soup key =
     (case soup of
        Text s \<Rightarrow> Inl TypeError
      | Tag n as cs \<Rightarrow> (case map_of as key of None \<Rightarrow> Inl KeyError | Some v \<Rightarrow> Inr v))"

text \<open>The descendants of a node in document order, the node itself left out.\<close>

fun descendants :: "node \<Rightarrow> node list" where
  "descendants (Text s) = []"
| "descendants (Tag n as cs) = concat (map (\<lambda>c. c # descendants c) cs)"

text \<open>A tag carries class \<open>c\<close> when \<open>c\<close> is one of the tokens of its \<^verbatim>\<open>class\<close> attribute.\<close>

fun has_class :: "string \<Rightarrow> node \<Rightarrow> bool" where
  "has_class c (Text s) = False"
| "has_class c (Tag n as cs) =
     (case map_of as ''class'' of None \<Rightarrow> False | Some v \<Rightarrow> c \<in> set (split_ws v))"

text \<open>\<^verbatim>\<open>soup.find(class_=c)\<close>: the first descendant tag of that class, or \<^verbatim>\<open>None\<close>.\<close>

definition find_class :: "node \<Rightarrow> string \<Rightarrow> node option" where
  "find_class soup c = List.find (has_class c) (descendants soup)"

text \<open>\<^verbatim>\<open>.contents\<close> of what \<^verbatim>\<open>find\<close> returned: \<^verbatim>\<open>None\<close> has no such attribute.\<close>

definition contents_of :: "node option \<Rightarrow> exn + node list" where
  "contents_of r =
     (case r of
        None \<Rightarrow> Inl AttributeError
      | Some (Text s) \<Rightarrow> Inl AttributeError
      | Some (Tag n as cs) \<Rightarrow> Inr cs)"

section \<open>\<^verbatim>\<open>transform_package\<close> (lines 172 to 215)\<close>

definition status_mapper :: "(string \<times> string) list" where
  "status_mapper =
     [(''status1'', ''origin''),
      (''status2'', ''air line / ship''),
      (''status3'', ''customs''),
      (''status4'', ''distribution center''),
      (''status6'', ''transit''),
      (''status5'', ''available''),
      (''status7'', ''availableV2'')]"

text \<open>\<^verbatim>\<open>status_mapper.get(status, 'na')\<close>\<close>

definition status_formatted :: "string \<Rightarrow> string" where
  "status_formatted status =
     (case map_of status_mapper status of None \<Rightarrow> ''na'' | Some v \<Rightarrow> v)"

definition get_first :: "node list \<Rightarrow> pyval" where
  "get_first arr = (case arr of [] \<Rightarrow> PStr '''' | x # xs \<Rightarrow> PNode x)"

text \<open>\<^verbatim>\<open>_, status, status_label = groups.split()\<close>: exactly three tokens, or \<^verbatim>\<open>ValueError\<close>.\<close>

definition unpack3 :: "string list \<Rightarrow> exn + string \<times> string \<times> string" where
  "unpack3 xs = (case xs of [a, b, c] \<Rightarrow> Inr (a, b, c) | _ \<Rightarrow> Inl ValueError)"

text \<open>\<^verbatim>\<open>get_first(soup.find(class_=c).contents)\<close>\<close>

definition field_of :: "node \<Rightarrow> string \<Rightarrow> exn + pyval" where
  "field_of soup c = bind_exn (contents_of (find_class soup c)) (\<lambda>arr. Inr (get_first arr))"

text \<open>The body of the \<^verbatim>\<open>try\<close> block (lines 192 to 199), statement by statement.\<close>

definition extract_fields ::
  "node \<Rightarrow> exn + (pyval \<times> pyval \<times> pyval \<times> pyval \<times> pyval \<times> string \<times> string)" where
  "extract_fields soup =
     bind_exn (get_attr soup ''data-groups'') (\<lambda>groups.
     bind_exn (unpack3 (split_ws groups)) (\<lambda>(u, status, status_label).
     bind_exn (field_of soup ''packagecondition'') (\<lambda>condition.
     bind_exn (field_of soup ''trackingnumber'') (\<lambda>tracking_number.
     bind_exn (field_of soup ''packagecontent'') (\<lambda>content.
     bind_exn (field_of soup ''packagesender'') (\<lambda>sender.
     bind_exn (field_of soup ''packageweight'') (\<lambda>weight.
       Inr (condition, tracking_number, content, sender, weight, status, status_label))))))))"

text \<open>
  \<^verbatim>\<open>except Exception\<close> catches whatever the block raised and returns \<^verbatim>\<open>{}\<close> (the printed
  traceback is not modelled); otherwise the record of eight entries is returned.
\<close>

definition transform_package :: "node \<Rightarrow> exn + pyval" where
  "transform_package soup =
     (case extract_fields soup of
        Inl e \<Rightarrow> Inr (PDict [])
      | Inr (condition, tracking_number, content, sender, weight, status, status_label) \<Rightarrow>
          Inr (PDict
            [(''condition'', condition),
             (''trackingNumber'', tracking_number),
             (''content'', content),
             (''sender'', sender),
             (''weight'', weight),
             (''status'', PStr status),
             (''statusLabel'', PStr status_label),
             (''statusFormatted'', PStr (status_formatted status))]))"

section \<open>The configuration loader \<^verbatim>\<open>get_config\<close> (lines 24 to 46)\<close>

text \<open>
  What \<^verbatim>\<open>ConfigParser.read('config.ini')\<close> holds after reading: the entries of the
  \<^verbatim>\<open>DEFAULT\<close> section and the other sections by name, option names in lower case. A file
  that does not exist reads as no section at all. Values are taken free of \<^verbatim>\<open>%\<close>, so
  that interpolation leaves them as they are.
\<close>

record config_file =
  cf_defaults :: "(string \<times> string) list"
  cf_sections :: "(string \<times> (string \<times> string) list) list"

text \<open>What \<^verbatim>\<open>get_config\<close> takes as default and returns: a string, an integer (the literal
  \<^verbatim>\<open>30\<close>) or the parser object itself.\<close>

datatype cfgval = CStr string | CInt int | CParser config_file

text \<open>\<^verbatim>\<open>optionxform\<close> is \<^verbatim>\<open>str.lower\<close>.\<close>

definition lower_char :: "char \<Rightarrow> char" where
  "lower_char c =
     (if 65 \<le> (of_char c :: nat) \<and> (of_char c :: nat) \<le> 90
      then char_of ((of_char c :: nat) + 32) else c)"

definition optionxform :: "string \<Rightarrow> string" where
  "optionxform s = map lower_char s"

text \<open>
  \<^verbatim>\<open>config.get(section, option)\<close>: the section's entries shadow those of \<^verbatim>\<open>DEFAULT\<close>; a
  section that is neither present nor \<^verbatim>\<open>DEFAULT\<close> raises \<^verbatim>\<open>NoSectionError\<close>, an option found
  in neither raises \<^verbatim>\<open>NoOptionError\<close>.
\<close>

definition parser_get :: "config_file \<Rightarrow> string \<Rightarrow> string \<Rightarrow> exn + string" where
  "parser_get config section option =
     (case (case map_of (cf_sections config) section of
              Some d \<Rightarrow> Some d
            | None \<Rightarrow> if section = ''DEFAULT'' then Some [] else None) of
        None \<Rightarrow> Inl NoSectionError
      | Some d \<Rightarrow>
          (case map_of (d @ cf_defaults config) (optionxform option) of
             None \<Rightarrow> Inl NoOptionError
           | Some v \<Rightarrow> Inr v))"

text \<open>
  \<^verbatim>\<open>config[section][option] = value\<close>: \<^verbatim>\<open>config[section]\<close> raises \<^verbatim>\<open>KeyError\<close> for a section
  that is neither present nor \<^verbatim>\<open>DEFAULT\<close>; only a string can be stored.
\<close>

definition set_item :: "config_file \<Rightarrow> string \<Rightarrow> string \<Rightarrow> cfgval \<Rightarrow> exn + config_file" where
  "set_item config section option v =
     (case map_of (cf_sections config) section of
        None \<Rightarrow>
          if section = ''DEFAULT''
          then (case v of
                  CStr x \<Rightarrow> Inr (config\<lparr>cf_defaults :=
                              AList.update (optionxform option) x (cf_defaults config)\<rparr>)
                | _ \<Rightarrow> Inl TypeError)
          else Inl KeyError
      | Some d \<Rightarrow>
          (case v of
             CStr x \<Rightarrow> Inr (config\<lparr>cf_sections :=
                         AList.update section (AList.update (optionxform option) x d)
                           (cf_sections config)\<rparr>)
           | _ \<Rightarrow> Inl TypeError))"

text \<open>
  The inner function \<^verbatim>\<open>config_get\<close> (lines 33 to 38). The unpacking of
  \<^verbatim>\<open>section_option.split('.')\<close> stands before the \<^verbatim>\<open>try\<close>; the handler catches
  \<^verbatim>\<open>NoOptionError\<close> and \<^verbatim>\<open>NoSectionError\<close> only.
\<close>

definition config_get :: "config_file \<Rightarrow> string \<Rightarrow> cfgval \<Rightarrow> exn + cfgval" where
  "config_get config section_option default_v =
     (case split_on CHR ''.'' section_option of
        [section, option] \<Rightarrow>
          (case parser_get config section option of
             Inr v \<Rightarrow> Inr (CStr v)
           | Inl e \<Rightarrow> if e = NoOptionError \<or> e = NoSectionError then Inr default_v else Inl e)
      | _ \<Rightarrow> Inl ValueError)"

text \<open>The body of \<^verbatim>\<open>get_config\<close>, run on the parser that has read the file.\<close>

definition get_config :: "config_file \<Rightarrow> string \<Rightarrow> cfgval \<Rightarrow> exn + cfgval" where
  "get_config config section_config default_arg =
     bind_exn (config_get config ''user.name'' (CStr '''')) (\<lambda>name.
     bind_exn (set_item config ''user'' ''name'' name) (\<lambda>config1.
     bind_exn (config_get config1 ''user.password'' (CStr '''')) (\<lambda>password.
     bind_exn (set_item config1 ''user'' ''password'' password) (\<lambda>config2.
       if section_config \<noteq> '''' then config_get config2 section_config default_arg
       else Inr (CParser config2)))))"

section \<open>The session, the cache and the program state\<close>

text \<open>A \<^verbatim>\<open>requests.Response\<close>: its status code and its text.\<close>

record response =
  status_code :: nat
  resp_text :: string

text \<open>\<^verbatim>\<open>CACHE['home']\<close> holds the string \<^verbatim>\<open>''\<close> or the response that was fetched.\<close>

datatype home_val = HStr string | HResp response

text \<open>
  Truth value of \<^verbatim>\<open>CACHE['home']\<close>: a string is true when it is not empty; a response is
  true when its status is no client or server error (\<^verbatim>\<open>Response.__bool__\<close> is \<^verbatim>\<open>Response.ok\<close>).
\<close>

definition ok :: "response \<Rightarrow> bool" where
  "ok r = (if 400 \<le> status_code r \<and> status_code r < 600 then False else True)"

definition truthy :: "home_val \<Rightarrow> bool" where
  "truthy h = (case h of HStr s \<Rightarrow> s \<noteq> '''' | HResp r \<Rightarrow> ok r)"

text \<open>\<^verbatim>\<open>eps_home.text\<close>: a string has no such attribute.\<close>

definition text_of :: "home_val \<Rightarrow> exn + string" where
  "text_of h = (case h of HStr s \<Rightarrow> Inl AttributeError | HResp r \<Rightarrow> Inr (resp_text r))"

text \<open>What is written to standard output by \<^verbatim>\<open>log\<close> and what is sent upstream, in order.\<close>

datatype event = Log string | Post string | Get string

text \<open>
  The state of the process: the configuration file, the table of \<^verbatim>\<open>lru_cache\<close> (keyed by the
  arguments of \<^verbatim>\<open>get_config\<close>; the few keys of this program never reach its size limit),
  the login payload, the cookies of the session, the two slots of \<^verbatim>\<open>CACHE\<close> and the trace.
\<close>

record state =
  config_ini :: config_file
  lru :: "string \<times> cfgval \<Rightarrow> cfgval option"
  payload :: "(string \<times> string) list"
  cookies :: "(string \<times> string) list"
  home :: home_val
  last_update :: real
  trace :: "event list"

text \<open>
  The portal: what a POST of the payload and a GET do, given the cookies sent. Each either
  raises or returns (with the response, for GET) the cookies the session holds afterwards.
\<close>

record upstream =
  http_post :: "string \<Rightarrow> (string \<times> string) list \<Rightarrow> (string \<times> string) list
                 \<Rightarrow> exn + (string \<times> string) list"
  http_get :: "string \<Rightarrow> (string \<times> string) list
                 \<Rightarrow> exn + response \<times> (string \<times> string) list"

text \<open>
  Library functions the module calls and that are not part of it: \<^verbatim>\<open>float\<close> on a string
  (\<open>None\<close> when it raises \<^verbatim>\<open>ValueError\<close>) and the parser behind
  \<^verbatim>\<open>BeautifulSoup(text, 'html.parser')\<close>, which returns the root of the tree.
\<close>

record pylib =
  str_to_float :: "string \<Rightarrow> real option"
  html_parser :: "string \<Rightarrow> node"

definition URLS_login :: string where
  "URLS_login = ''https://app.eps-int.com/login''"

definition URLS_home :: string where
  "URLS_home = ''https://app.eps-int.com/TrackingPaquetes#filter=*''"

definition INITIAL_STATE :: pyval where
  "INITIAL_STATE = PDict [(''items'', PList [])]"

text \<open>\<^verbatim>\<open>get_config\<close> as decorated: a result is computed once per argument pair and kept; a
  call that raises keeps nothing.\<close>

definition lru_get_config :: "string \<Rightarrow> cfgval \<Rightarrow> state \<Rightarrow> (exn + cfgval) \<times> state" where
  "lru_get_config k d s =
     (case lru s (k, d) of
        Some v \<Rightarrow> (Inr v, s)
      | None \<Rightarrow>
          (case get_config (config_ini s) k d of
             Inl e \<Rightarrow> (Inl e, s)
           | Inr v \<Rightarrow> (Inr v, s\<lparr>lru := (lru s)((k, d) \<mapsto> v)\<rparr>)))"

definition py_float :: "pylib \<Rightarrow> cfgval \<Rightarrow> exn + real" where
  "py_float lib v =
     (case v of
        CInt n \<Rightarrow> Inr (real_of_int n)
      | CStr x \<Rightarrow> (case str_to_float lib x of None \<Rightarrow> Inl ValueError | Some r \<Rightarrow> Inr r)
      | CParser c \<Rightarrow> Inl TypeError)"

text \<open>\<^verbatim>\<open>float(get_config('server.cache', 30))\<close> (line 131)\<close>

definition server_cache :: "pylib \<Rightarrow> state \<Rightarrow> (exn + real) \<times> state" where
  "server_cache lib s =
     (case lru_get_config ''server.cache'' (CInt 30) s of
        (Inl e, s1) \<Rightarrow> (Inl e, s1)
      | (Inr v, s1) \<Rightarrow> (py_float lib v, s1))"

definition is_logged_in :: "state \<Rightarrow> bool" where
  "is_logged_in s = (map_of (cookies s) ''WebSite_autologin'' \<noteq> None)"

definition log :: "string \<Rightarrow> state \<Rightarrow> state" where
  "log message s = s\<lparr>trace := trace s @ [Log message]\<rparr>"

text \<open>\<^verbatim>\<open>login\<close>: the POST is sent; the cookies it sets stay in the session.\<close>

definition login :: "upstream \<Rightarrow> state \<Rightarrow> (exn + unit) \<times> state" where
  "login up s =
     (let s1 = s\<lparr>trace := trace s @ [Post URLS_login]\<rparr>
      in case http_post up URLS_login (payload s) (cookies s) of
           Inl e \<Rightarrow> (Inl e, s1)
         | Inr jar \<Rightarrow> (Inr (), s1\<lparr>cookies := jar\<rparr>))"

text \<open>\<^verbatim>\<open>session.get(url)\<close>\<close>

definition session_get :: "upstream \<Rightarrow> string \<Rightarrow> state \<Rightarrow> (exn + response) \<times> state" where
  "session_get up url s =
     (let s1 = s\<lparr>trace := trace s @ [Get url]\<rparr>
      in case http_get up url (cookies s) of
           Inl e \<Rightarrow> (Inl e, s1)
         | Inr (r, jar) \<Rightarrow> (Inr r, s1\<lparr>cookies := jar\<rparr>))"

section \<open>\<^verbatim>\<open>get_packages\<close> (lines 122 to 168) and the routes\<close>

text \<open>
  \<^verbatim>\<open>soup.select('#fTrackingPaquetes [data-groups]')\<close>: the tags that carry the attribute
  \<^verbatim>\<open>data-groups\<close> below a tag whose \<^verbatim>\<open>id\<close> is \<^verbatim>\<open>fTrackingPaquetes\<close>, in document order.
  The flag tells whether such an ancestor has been passed.
\<close>

fun select_in :: "bool \<Rightarrow> node \<Rightarrow> node list" where
  "select_in inside (Text s) = []"
| "select_in inside (Tag n as cs) =
     (if inside \<and> map_of as ''data-groups'' \<noteq> None then [Tag n as cs] else [])
     @ concat (map (select_in (inside \<or> map_of as ''id'' = Some ''fTrackingPaquetes'')) cs)"

definition select_packages :: "node \<Rightarrow> node list" where
  "select_packages soup = select_in False soup"

text \<open>\<^verbatim>\<open>list(map(f, xs))\<close> for an \<open>f\<close> that may raise: the first exception ends it.\<close>

fun map_exn :: "('a \<Rightarrow> exn + 'b) \<Rightarrow> 'a list \<Rightarrow> exn + 'b list" where
  "map_exn f [] = Inr []"
| "map_exn f (x # xs) =
     bind_exn (f x) (\<lambda>y. bind_exn (map_exn f xs) (\<lambda>ys. Inr (y # ys)))"

text \<open>Minutes between \<^verbatim>\<open>CACHE['last_update']\<close> and the clock (lines 132 and 133).\<close>

definition elapsed_minutes :: "state \<Rightarrow> real \<Rightarrow> real" where
  "elapsed_minutes s epoch = \<bar>last_update s - epoch\<bar> / 60"

text \<open>
  Lines 127 to 153: the staleness test, the clearing of the page, and then either the
  cached page or \<^verbatim>\<open>login\<close> and a fresh GET. \<open>epoch\<close> is what \<^verbatim>\<open>datetime.now().timestamp()\<close>
  returned. The result is \<^verbatim>\<open>eps_home\<close>.
\<close>

definition cache_or_fetch ::
  "pylib \<Rightarrow> upstream \<Rightarrow> real \<Rightarrow> bool \<Rightarrow> state \<Rightarrow> (exn + home_val) \<times> state" where
  "cache_or_fetch lib up epoch use_cache s0 =
     (case server_cache lib s0 of
        (Inl e, s1) \<Rightarrow> (Inl e, s1)
      | (Inr window, s1) \<Rightarrow>
          (let clear_flag = (elapsed_minutes s1 epoch > window);
               s2 = (if clear_flag then s1\<lparr>last_update := epoch\<rparr> else s1);
               s3 = (if clear_flag \<and> use_cache then s2\<lparr>home := HStr ''''\<rparr> else s2)
           in if truthy (home s3) \<and> use_cache
              then (Inr (home s3), log ''CACHE: CACHE'' s3)
              else (case login up (log ''CACHE: DIRECT'' s3) of
                      (Inl e, s4) \<Rightarrow> (Inl e, s4)
                    | (Inr u, s4) \<Rightarrow>
                        (case session_get up URLS_home s4 of
                           (Inl e, s5) \<Rightarrow> (Inl e, s5)
                         | (Inr eps_home, s5) \<Rightarrow>
                             (Inr (HResp eps_home),
                              s5\<lparr>home := HResp eps_home, last_update := epoch\<rparr>)))))"

definition get_packages ::
  "pylib \<Rightarrow> upstream \<Rightarrow> real \<Rightarrow> bool \<Rightarrow> state \<Rightarrow> (exn + pyval) \<times> state" where
  "get_packages lib up epoch use_cache s0 =
     (case cache_or_fetch lib up epoch use_cache s0 of
        (Inl e, s1) \<Rightarrow> (Inl e, s1)
      | (Inr eps_home, s1) \<Rightarrow>
          if \<not> is_logged_in s1 then (Inr INITIAL_STATE, s1)
          else (case text_of eps_home of
                  Inl e \<Rightarrow> (Inl e, s1)
                | Inr txt \<Rightarrow>
                    (case map_exn transform_package (select_packages (html_parser lib txt)) of
                       Inl e \<Rightarrow> (Inl e, s1)
                     | Inr package_list \<Rightarrow>
                         (Inr (PDict [(''items'', PList package_list),
                                      (''logged_in'', PBool (is_logged_in s1))]), s1))))"

text \<open>The routes \<^verbatim>\<open>/\<close>, \<^verbatim>\<open>/now\<close> and \<^verbatim>\<open>/clear\<close> (lines 94 to 118).\<close>

definition packages :: "pylib \<Rightarrow> upstream \<Rightarrow> real \<Rightarrow> state \<Rightarrow> (exn + pyval) \<times> state" where
  "packages lib up epoch s = get_packages lib up epoch True s"

definition now :: "pylib \<Rightarrow> upstream \<Rightarrow> real \<Rightarrow> state \<Rightarrow> (exn + pyval) \<times> state" where
  "now lib up epoch s = get_packages lib up epoch False s"

definition clear :: "state \<Rightarrow> string \<times> state" where
  "clear s = (''OK'', s\<lparr>home := HStr ''''\<rparr>)"

text \<open>\<^verbatim>\<open>d.get(k)\<close> on a value that is a dictionary.\<close>

definition dict_get :: "pyval \<Rightarrow> string \<Rightarrow> pyval option" where
  "dict_get d k = (case d of PDict kvs \<Rightarrow> map_of kvs k | _ \<Rightarrow> None)"

section \<open>Sample data\<close>

text \<open>A well-formed row of the dashboard, and a row whose \<^verbatim>\<open>data-groups\<close> has one token only
  and that lacks every field.\<close>

definition sample_row :: node where
  "sample_row =
     Tag ''div'' [(''data-groups'', ''all status5 Disponible'')]
       [Tag ''span'' [(''class'', ''packagecondition'')] [Text ''OK''],
        Tag ''span'' [(''class'', ''trackingnumber'')] [Text ''1Z99''],
        Tag ''span'' [(''class'', ''packagecontent'')] [Text ''Books''],
        Tag ''span'' [(''class'', ''packagesender'')] [Text ''Shop''],
        Tag ''span'' [(''class'', ''cell packageweight'')] [Text ''2 lb'']]"

definition broken_row :: node where
  "broken_row = Tag ''div'' [(''data-groups'', ''all'')] []"

definition sample_page :: node where
  "sample_page =
     Tag ''[document]'' []
       [Tag ''form'' [(''id'', ''fTrackingPaquetes'')] [sample_row, broken_row]]"

definition sample_lib :: pylib where
  "sample_lib = \<lparr>str_to_float = (\<lambda>x. None), html_parser = (\<lambda>x. sample_page)\<rparr>"

text \<open>The state of the process once the module is loaded, for a configuration file with a
  \<^verbatim>\<open>[user]\<close> section and no \<^verbatim>\<open>[server]\<close> section.\<close>

definition sample_config :: config_file where
  "sample_config =
     \<lparr>cf_defaults = [],
      cf_sections = [(''user'', [(''name'', ''ana''), (''password'', ''pw'')])]\<rparr>"

definition start_state :: state where
  "start_state =
     \<lparr>config_ini = sample_config,
      lru = Map.empty,
      payload = [(''username'', ''ana''), (''password'', ''pw'')],
      cookies = [],
      home = HStr '''',
      last_update = 0,
      trace = []\<rparr>"

text \<open>A portal that accepts the login and serves the page with the given status code, and
  one that rejects the login (no cookie is set).\<close>

definition portal :: "nat \<Rightarrow> upstream" where
  "portal code =
     \<lparr>http_post = (\<lambda>url data jar. Inr [(''WebSite_autologin'', ''1'')]),
      http_get = (\<lambda>url jar. Inr (\<lparr>status_code = code, resp_text = ''<html>''\<rparr>, jar))\<rparr>"

definition closed_portal :: upstream where
  "closed_portal =
     \<lparr>http_post = (\<lambda>url data jar. Inr jar),
      http_get = (\<lambda>url jar. Inr (\<lparr>status_code = 200, resp_text = ''<html>''\<rparr>, jar))\<rparr>"

text \<open>The state that a first request at time 1000000 leaves behind, when the portal has
  accepted the login and served a page with the given status code.\<close>

definition after_fetch :: "nat \<Rightarrow> state" where
  "after_fetch code =
     \<lparr>config_ini = sample_config,
      lru = [(''server.cache'', CInt 30) \<mapsto> CInt 30],
      payload = [(''username'', ''ana''), (''password'', ''pw'')],
      cookies = [(''WebSite_autologin'', ''1'')],
      home = HResp \<lparr>status_code = code, resp_text = ''<html>''\<rparr>,
      last_update = 1000000,
      trace = [Log ''CACHE: DIRECT'', Post URLS_login, Get URLS_home]\<rparr>"

section \<open>Auxiliary facts\<close>

subsection \<open>The configured window\<close>

text \<open>Reading the window changes nothing but the table of \<^verbatim>\<open>lru_cache\<close>, and once it has been
  read it is read again with the same value.\<close>

lemma server_cache_fields:
  assumes "server_cache lib s = (r, s1)"
  shows "config_ini s1 = config_ini s \<and> payload s1 = payload s \<and> cookies s1 = cookies s
         \<and> home s1 = home s \<and> last_update s1 = last_update s \<and> trace s1 = trace s"
  using assms
  by (auto simp: server_cache_def lru_get_config_def split: option.splits sum.splits)

lemma server_cache_kept:
  assumes "server_cache lib s = (Inr w, s1)" and "lru s2 = lru s1"
  shows "server_cache lib s2 = (Inr w, s2)"
  using assms
  by (auto simp: server_cache_def lru_get_config_def split: option.splits sum.splits)

lemma elapsed_minutes_after:
  assumes "server_cache lib s = (r, s1)"
  shows "elapsed_minutes s1 epoch = elapsed_minutes s epoch"
  using server_cache_fields [OF assms] by (simp add: elapsed_minutes_def)

subsection \<open>The two branches of \<^verbatim>\<open>get_packages\<close>\<close>

text \<open>The fetch branch is taken unless caching is asked for, the cached value is true and
  the window has not elapsed; the parsing that follows leaves the state alone.\<close>

lemma cache_or_fetch_direct:
  assumes cfg: "server_cache lib s = (Inr w, s1)"
    and branch: "\<not> (use_cache \<and> truthy (home s) \<and> \<not> elapsed_minutes s epoch > w)"
    and post: "http_post up URLS_login (payload s) (cookies s) = Inr jar1"
    and get: "http_get up URLS_home jar1 = Inr (page, jar2)"
  shows "cache_or_fetch lib up epoch use_cache s =
           (Inr (HResp page),
            s1\<lparr>cookies := jar2, home := HResp page, last_update := epoch,
               trace := trace s @ [Log ''CACHE: DIRECT'', Post URLS_login, Get URLS_home]\<rparr>)"
  using branch post get server_cache_fields [OF cfg] elapsed_minutes_after [OF cfg, of epoch]
  by (auto simp: cache_or_fetch_def cfg Let_def login_def session_get_def log_def truthy_def)

lemma cache_or_fetch_hit:
  assumes cfg: "server_cache lib s = (Inr w, s1)"
    and "truthy (home s)" and "\<not> elapsed_minutes s epoch > w"
  shows "cache_or_fetch lib up epoch True s =
           (Inr (home s), s1\<lparr>trace := trace s @ [Log ''CACHE: CACHE'']\<rparr>)"
  using assms(2,3) server_cache_fields [OF cfg] elapsed_minutes_after [OF cfg, of epoch]
  by (auto simp: cache_or_fetch_def cfg Let_def log_def)

lemma get_packages_state:
  "snd (get_packages lib up epoch use_cache s) = snd (cache_or_fetch lib up epoch use_cache s)"
  by (simp add: get_packages_def split: prod.splits sum.splits)

lemma cache_or_fetch_lru:
  assumes cfg: "server_cache lib s = (Inr w, s1)"
  shows "lru (snd (cache_or_fetch lib up epoch use_cache s)) = lru s1"
  by (auto simp: cache_or_fetch_def cfg Let_def login_def session_get_def log_def
      split: sum.splits prod.splits)

lemma cache_or_fetch_direct_trace:
  assumes cfg: "server_cache lib s = (Inr w, s1)"
    and branch: "\<not> (use_cache \<and> truthy (home s) \<and> \<not> elapsed_minutes s epoch > w)"
  shows "\<exists>rest. trace (snd (cache_or_fetch lib up epoch use_cache s))
           = trace s @ [Log ''CACHE: DIRECT'', Post URLS_login] @ rest"
  using branch server_cache_fields [OF cfg] elapsed_minutes_after [OF cfg, of epoch]
  by (auto simp: cache_or_fetch_def cfg Let_def login_def session_get_def log_def truthy_def
      split: sum.splits prod.splits)

lemma cache_or_fetch_stale_last_update:
  assumes cfg: "server_cache lib s = (Inr w, s1)"
    and stale: "elapsed_minutes s epoch > w"
  shows "last_update (snd (cache_or_fetch lib up epoch use_cache s)) = epoch"
  using stale elapsed_minutes_after [OF cfg, of epoch]
  by (auto simp: cache_or_fetch_def cfg Let_def login_def session_get_def log_def
      split: sum.splits prod.splits)

lemma cache_or_fetch_stale_home:
  assumes cfg: "server_cache lib s = (Inr w, s1)"
    and stale: "elapsed_minutes s epoch > w"
  shows "home (snd (cache_or_fetch lib up epoch True s)) =
           (case fst (cache_or_fetch lib up epoch True s) of
              Inl e \<Rightarrow> HStr '''' | Inr eps_home \<Rightarrow> eps_home)"
  using stale elapsed_minutes_after [OF cfg, of epoch]
  by (auto simp: cache_or_fetch_def cfg Let_def login_def session_get_def log_def truthy_def
      split: sum.splits prod.splits)

lemma cache_or_fetch_home:
  assumes "cache_or_fetch lib up epoch use_cache s = (Inr eps_home, s1)"
  shows "home s1 = eps_home"
  using assms
  by (auto simp: cache_or_fetch_def Let_def login_def session_get_def log_def
      split: sum.splits prod.splits if_splits)

lemma cache_or_fetch_direct_returned:
  assumes cfg: "server_cache lib s = (Inr w, sc)"
    and branch: "\<not> (use_cache \<and> truthy (home s) \<and> \<not> elapsed_minutes s epoch > w)"
    and ret: "cache_or_fetch lib up epoch use_cache s = (Inr eps_home, s1)"
  shows "trace s1 = trace s @ [Log ''CACHE: DIRECT'', Post URLS_login, Get URLS_home]"
  using branch ret server_cache_fields [OF cfg] elapsed_minutes_after [OF cfg, of epoch]
  by (auto simp: cache_or_fetch_def cfg Let_def login_def session_get_def log_def truthy_def
      split: sum.splits prod.splits if_splits)

lemma get_packages_returned:
  assumes "get_packages lib up epoch use_cache s = (Inr result, s1)"
  shows "\<exists>eps_home. cache_or_fetch lib up epoch use_cache s = (Inr eps_home, s1)"
  using assms
  by (auto simp: get_packages_def split: sum.splits prod.splits if_splits)

lemma get_packages_same_page:
  assumes a: "cache_or_fetch lib up epoch use_cache s = (Inr eps_home, s1)"
    and b: "cache_or_fetch lib up' epoch' use_cache' s' = (Inr eps_home, s1')"
    and c: "cookies s1' = cookies s1"
  shows "fst (get_packages lib up' epoch' use_cache' s') = fst (get_packages lib up epoch use_cache s)"
  using c by (auto simp: get_packages_def a b is_logged_in_def split: sum.splits)

subsection \<open>Extraction\<close>









subsection \<open>The sample data, evaluated\<close>

lemma sample_window:
  "server_cache sample_lib start_state
     = (Inr 30, start_state\<lparr>lru := [(''server.cache'', CInt 30) \<mapsto> CInt 30]\<rparr>)"
proof -
  have "get_config sample_config ''server.cache'' (CInt 30) = Inr (CInt 30)"
    by (simp add: get_config_def config_get_def split_on_def parser_get_def set_item_def
        sample_config_def bind_exn_def optionxform_def lower_char_def)
  then show ?thesis
    by (simp add: server_cache_def lru_get_config_def start_state_def py_float_def)
qed

lemma sample_window_kept:
  "server_cache sample_lib (after_fetch code) = (Inr 30, after_fetch code)"
  by (simp add: server_cache_def lru_get_config_def after_fetch_def py_float_def)

lemma sample_first_request:
  "cache_or_fetch sample_lib (portal code) 1000000 use_cache start_state
     = (Inr (HResp \<lparr>status_code = code, resp_text = ''<html>''\<rparr>), after_fetch code)"
proof -
  have branch: "\<not> (use_cache \<and> truthy (home start_state)
                   \<and> \<not> elapsed_minutes start_state 1000000 > 30)"
    by (simp add: truthy_def start_state_def)
  have post: "http_post (portal code) URLS_login (payload start_state) (cookies start_state)
                = Inr [(''WebSite_autologin'', ''1'')]"
    by (simp add: portal_def)
  have get: "http_get (portal code) URLS_home [(''WebSite_autologin'', ''1'')]
               = Inr (\<lparr>status_code = code, resp_text = ''<html>''\<rparr>,
                      [(''WebSite_autologin'', ''1'')])"
    by (simp add: portal_def)
  show ?thesis
    using cache_or_fetch_direct [OF sample_window branch post get]
    by (simp add: after_fetch_def start_state_def)
qed

lemma closed_first_request:
  "cache_or_fetch sample_lib closed_portal 1000000 use_cache start_state
     = (Inr (HResp \<lparr>status_code = 200, resp_text = ''<html>''\<rparr>),
        (after_fetch 200)\<lparr>cookies := []\<rparr>)"
proof -
  have branch: "\<not> (use_cache \<and> truthy (home start_state)
                   \<and> \<not> elapsed_minutes start_state 1000000 > 30)"
    by (simp add: truthy_def start_state_def)
  have post: "http_post closed_portal URLS_login (payload start_state) (cookies start_state)
                = Inr []"
    by (simp add: closed_portal_def start_state_def)
  have get: "http_get closed_portal URLS_home []
               = Inr (\<lparr>status_code = 200, resp_text = ''<html>''\<rparr>, [])"
    by (simp add: closed_portal_def)
  show ?thesis
    using cache_or_fetch_direct [OF sample_window branch post get]
    by (simp add: after_fetch_def start_state_def)
qed

lemma warm_request:
  "http_post (portal code) URLS_login (payload (after_fetch c)) (cookies (after_fetch c))
     = Inr [(''WebSite_autologin'', ''1'')]
   \<and> http_get (portal code) URLS_home [(''WebSite_autologin'', ''1'')]
     = Inr (\<lparr>status_code = code, resp_text = ''<html>''\<rparr>, [(''WebSite_autologin'', ''1'')])"
  by (simp add: portal_def)

lemma sample_rows: "select_packages sample_page = [sample_row, broken_row]"
  by (simp add: select_packages_def sample_page_def sample_row_def broken_row_def)

lemma sample_row_record:
  "transform_package sample_row =
     Inr (PDict
       [(''condition'', PNode (Text ''OK'')),
        (''trackingNumber'', PNode (Text ''1Z99'')),
        (''content'', PNode (Text ''Books'')),
        (''sender'', PNode (Text ''Shop'')),
        (''weight'', PNode (Text ''2 lb'')),
        (''status'', PStr ''status5''),
        (''statusLabel'', PStr ''Disponible''),
        (''statusFormatted'', PStr ''available'')])"
  by (simp add: transform_package_def extract_fields_def get_attr_def sample_row_def
      bind_exn_def split_ws_def py_isspace_def unpack3_def field_of_def find_class_def
      contents_of_def get_first_def status_formatted_def status_mapper_def)

lemma broken_row_fields: "extract_fields broken_row = Inl ValueError"
  by (simp add: extract_fields_def broken_row_def get_attr_def bind_exn_def split_ws_def
      py_isspace_def unpack3_def)

lemma broken_row_record: "transform_package broken_row = Inr (PDict [])"
  by (simp add: transform_package_def broken_row_fields)

lemma logged_in_after_fetch: "is_logged_in (after_fetch code)"
  by (simp add: is_logged_in_def after_fetch_def)

lemma sample_parse: "html_parser sample_lib txt = sample_page"
  by (simp add: sample_lib_def)

lemma sample_listing:
  "get_packages sample_lib (portal code) 1000000 use_cache start_state =
     (Inr (PDict
        [(''items'', PList
           [PDict
              [(''condition'', PNode (Text ''OK'')),
               (''trackingNumber'', PNode (Text ''1Z99'')),
               (''content'', PNode (Text ''Books'')),
               (''sender'', PNode (Text ''Shop'')),
               (''weight'', PNode (Text ''2 lb'')),
               (''status'', PStr ''status5''),
               (''statusLabel'', PStr ''Disponible''),
               (''statusFormatted'', PStr ''available'')],
            PDict []]),
         (''logged_in'', PBool True)]),
      after_fetch code)"
  by (simp add: get_packages_def sample_first_request logged_in_after_fetch text_of_def
      sample_parse sample_rows sample_row_record broken_row_record bind_exn_def)

section \<open>The extraction of one row\<close>





section \<open>The cache and the session\<close>

text \<open>
  Claim C3. Whatever \<open>use_cache\<close> is and whichever branch produced the page, when
  \<^verbatim>\<open>is_logged_in()\<close> is false after lines 127 to 153 the call returns \<^verbatim>\<open>INITIAL_STATE\<close>, which
  is \<^verbatim>\<open>{'items': []}\<close> and has no key \<^verbatim>\<open>logged_in\<close>.
\<close>

theorem get_packages_not_logged_in:
  assumes "cache_or_fetch lib up epoch use_cache s = (Inr eps_home, s1)"
    and "\<not> is_logged_in s1"
  shows "get_packages lib up epoch use_cache s = (Inr INITIAL_STATE, s1)
       \<and> INITIAL_STATE = PDict [(''items'', PList [])]
       \<and> dict_get INITIAL_STATE ''logged_in'' = None"
  using assms by (simp add: get_packages_def INITIAL_STATE_def dict_get_def)

text \<open>A portal that sets no cookie: the page is fetched and cached, and the answer is empty.\<close>

theorem get_packages_not_logged_in_witness:
  "cache_or_fetch sample_lib closed_portal 1000000 True start_state
     = (Inr (HResp \<lparr>status_code = 200, resp_text = ''<html>''\<rparr>),
        (after_fetch 200)\<lparr>cookies := []\<rparr>)
   \<and> \<not> is_logged_in ((after_fetch 200)\<lparr>cookies := []\<rparr>)
   \<and> home ((after_fetch 200)\<lparr>cookies := []\<rparr>)
       = HResp \<lparr>status_code = 200, resp_text = ''<html>''\<rparr>
   \<and> get_packages sample_lib closed_portal 1000000 True start_state
       = (Inr (PDict [(''items'', PList [])]), (after_fetch 200)\<lparr>cookies := []\<rparr>)"
proof -
  have out: "\<not> is_logged_in ((after_fetch 200)\<lparr>cookies := []\<rparr>)"
    by (simp add: is_logged_in_def)
  have page: "home ((after_fetch 200)\<lparr>cookies := []\<rparr>)
       = HResp \<lparr>status_code = 200, resp_text = ''<html>''\<rparr>"
    by (simp add: after_fetch_def)
  show ?thesis
    using get_packages_not_logged_in [OF closed_first_request out] closed_first_request out page
    by simp
qed

text \<open>
  Claim C4, as stated, fails. Two requests with \<open>use_cache=True\<close>, one minute apart with a
  window of thirty minutes, to a portal that answers the GET with status 500: the first
  request returns and caches the response, yet the second one logs in and fetches again,
  because a response with an error status is false in \<^verbatim>\<open>if CACHE['home'] and use_cache\<close>.
\<close>

theorem error_page_is_fetched_again:
  "fst (get_packages sample_lib (portal 500) 1000000 True start_state) =
     Inr (PDict
        [(''items'', PList
           [PDict
              [(''condition'', PNode (Text ''OK'')),
               (''trackingNumber'', PNode (Text ''1Z99'')),
               (''content'', PNode (Text ''Books'')),
               (''sender'', PNode (Text ''Shop'')),
               (''weight'', PNode (Text ''2 lb'')),
               (''status'', PStr ''status5''),
               (''statusLabel'', PStr ''Disponible''),
               (''statusFormatted'', PStr ''available'')],
            PDict []]),
         (''logged_in'', PBool True)])
   \<and> snd (get_packages sample_lib (portal 500) 1000000 True start_state) = after_fetch 500
   \<and> server_cache sample_lib (after_fetch 500) = (Inr 30, after_fetch 500)
   \<and> elapsed_minutes (after_fetch 500) 1000060 \<le> 30
   \<and> trace (snd (get_packages sample_lib (portal 500) 1000060 True (after_fetch 500))) =
       [Log ''CACHE: DIRECT'', Post URLS_login, Get URLS_home,
        Log ''CACHE: DIRECT'', Post URLS_login, Get URLS_home]"
proof -
  have branch: "\<not> (True \<and> truthy (home (after_fetch 500))
                   \<and> \<not> elapsed_minutes (after_fetch 500) 1000060 > 30)"
    by (simp add: truthy_def ok_def after_fetch_def)
  have post: "http_post (portal 500) URLS_login (payload (after_fetch 500))
                (cookies (after_fetch 500)) = Inr [(''WebSite_autologin'', ''1'')]"
    by (simp add: portal_def)
  have get: "http_get (portal 500) URLS_home [(''WebSite_autologin'', ''1'')]
               = Inr (\<lparr>status_code = 500, resp_text = ''<html>''\<rparr>,
                      [(''WebSite_autologin'', ''1'')])"
    by (simp add: portal_def)
  have "trace (snd (cache_or_fetch sample_lib (portal 500) 1000060 True (after_fetch 500))) =
       [Log ''CACHE: DIRECT'', Post URLS_login, Get URLS_home,
        Log ''CACHE: DIRECT'', Post URLS_login, Get URLS_home]"
    using cache_or_fetch_direct [OF sample_window_kept branch post get]
    by (simp add: after_fetch_def)
  moreover have "elapsed_minutes (after_fetch 500) 1000060 \<le> 30"
    by (simp add: elapsed_minutes_def after_fetch_def)
  ultimately show ?thesis
    by (simp add: sample_listing sample_window_kept get_packages_state)
qed

text \<open>
  Claim C4, amended. Let a first call with \<open>use_cache=True\<close> return, having taken the fetch
  branch (the window had elapsed or the cached value was false), and let the value it left
  in \<^verbatim>\<open>CACHE['home']\<close> be true, that is, a response whose status is no error. Then a second
  call with \<open>use_cache=True\<close> for which the elapsed minutes do not exceed the window takes
  the cache branch: whatever the portal would do, it returns what the first call returned
  and adds nothing to the trace but its log line. Over the two calls there is exactly one
  login and one fetch.
\<close>

theorem cached_page_is_reused:
  assumes cfg: "server_cache lib s0 = (Inr window, sc)"
    and first: "get_packages lib up1 epoch1 True s0 = (Inr result1, s1)"
    and fetched: "elapsed_minutes s0 epoch1 > window \<or> \<not> truthy (home s0)"
    and usable: "truthy (home s1)"
    and within: "elapsed_minutes s1 epoch2 \<le> window"
  shows "get_packages lib up2 epoch2 True s1
           = (Inr result1, s1\<lparr>trace := trace s1 @ [Log ''CACHE: CACHE'']\<rparr>)
       \<and> trace s1 = trace s0 @ [Log ''CACHE: DIRECT'', Post URLS_login, Get URLS_home]"
proof -
  obtain eps_home where one: "cache_or_fetch lib up1 epoch1 True s0 = (Inr eps_home, s1)"
    using get_packages_returned [OF first] by blast
  have "lru s1 = lru sc"
    using cache_or_fetch_lru [OF cfg, of up1 epoch1 True] one by simp
  then have cfg1: "server_cache lib s1 = (Inr window, s1)"
    by (rule server_cache_kept [OF cfg])
  have fresh: "\<not> window < elapsed_minutes s1 epoch2"
    using within by simp
  have two: "cache_or_fetch lib up2 epoch2 True s1
               = (Inr eps_home, s1\<lparr>trace := trace s1 @ [Log ''CACHE: CACHE'']\<rparr>)"
    using cache_or_fetch_hit [OF cfg1 usable fresh, of up2] cache_or_fetch_home [OF one]
    by simp
  have "fst (get_packages lib up2 epoch2 True s1) = fst (get_packages lib up1 epoch1 True s0)"
    by (rule get_packages_same_page [OF one two]) simp
  moreover have "snd (get_packages lib up2 epoch2 True s1)
                   = s1\<lparr>trace := trace s1 @ [Log ''CACHE: CACHE'']\<rparr>"
    by (simp add: get_packages_state two)
  ultimately have call2: "get_packages lib up2 epoch2 True s1
                = (Inr result1, s1\<lparr>trace := trace s1 @ [Log ''CACHE: CACHE'']\<rparr>)"
    using first by (simp add: prod_eq_iff)
  have branch: "\<not> (True \<and> truthy (home s0) \<and> \<not> elapsed_minutes s0 epoch1 > window)"
    using fetched by blast
  show ?thesis
    using call2 cache_or_fetch_direct_returned [OF cfg branch one] by simp
qed

text \<open>The second request is made to a portal that would reject the login; it is not asked.\<close>

theorem cached_page_is_reused_witness:
  "server_cache sample_lib start_state
     = (Inr 30, start_state\<lparr>lru := [(''server.cache'', CInt 30) \<mapsto> CInt 30]\<rparr>)
   \<and> snd (get_packages sample_lib (portal 200) 1000000 True start_state) = after_fetch 200
   \<and> elapsed_minutes start_state 1000000 > 30
   \<and> truthy (home (after_fetch 200))
   \<and> elapsed_minutes (after_fetch 200) 1000060 \<le> 30
   \<and> get_packages sample_lib closed_portal 1000060 True (after_fetch 200)
       = (fst (get_packages sample_lib (portal 200) 1000000 True start_state),
          (after_fetch 200)\<lparr>trace := [Log ''CACHE: DIRECT'', Post URLS_login, Get URLS_home,
                                       Log ''CACHE: CACHE'']\<rparr>)"
proof -
  have stale: "elapsed_minutes start_state 1000000 > 30"
    by (simp add: elapsed_minutes_def start_state_def)
  have usable: "truthy (home (after_fetch 200))"
    by (simp add: truthy_def ok_def after_fetch_def)
  have within: "elapsed_minutes (after_fetch 200) 1000060 \<le> 30"
    by (simp add: elapsed_minutes_def after_fetch_def)
  have tr: "trace (after_fetch 200) = [Log ''CACHE: DIRECT'', Post URLS_login, Get URLS_home]"
    by (simp add: after_fetch_def)
  show ?thesis
    using cached_page_is_reused [OF sample_window sample_listing disjI1 [OF stale] usable within,
        of closed_portal]
      stale usable within tr
    by (simp add: sample_window sample_listing)
qed

text \<open>
  Claim C5. Let the elapsed minutes exceed the configured window in a call with
  \<open>use_cache=True\<close>. When the portal answers both requests (\<open>up\<close>), the call logs in,
  fetches, and leaves the fetched page in \<^verbatim>\<open>CACHE['home']\<close> and the clock in
  \<^verbatim>\<open>CACHE['last_update']\<close>. Whatever the portal does (\<open>up'\<close>), \<^verbatim>\<open>CACHE['last_update']\<close> is the
  clock, \<^verbatim>\<open>CACHE['home']\<close> is the fetched page or, when a request raised, the empty string
  (the old page is gone), and the login request has been sent.
\<close>

theorem stale_cache_is_refetched:
  assumes cfg: "server_cache lib s = (Inr window, s1)"
    and stale: "elapsed_minutes s epoch > window"
    and post: "http_post up URLS_login (payload s) (cookies s) = Inr jar1"
    and get: "http_get up URLS_home jar1 = Inr (page, jar2)"
  shows "snd (get_packages lib up epoch True s) =
           s1\<lparr>cookies := jar2, home := HResp page, last_update := epoch,
              trace := trace s @ [Log ''CACHE: DIRECT'', Post URLS_login, Get URLS_home]\<rparr>
       \<and> last_update (snd (get_packages lib up' epoch True s)) = epoch
       \<and> home (snd (get_packages lib up' epoch True s)) =
           (case fst (cache_or_fetch lib up' epoch True s) of
              Inl e \<Rightarrow> HStr '''' | Inr eps_home \<Rightarrow> eps_home)
       \<and> (\<exists>rest. trace (snd (get_packages lib up' epoch True s))
              = trace s @ [Log ''CACHE: DIRECT'', Post URLS_login] @ rest)"
proof -
  have branch: "\<not> (True \<and> truthy (home s) \<and> \<not> elapsed_minutes s epoch > window)"
    using stale by simp
  show ?thesis
    using cache_or_fetch_direct [OF cfg branch post get]
      cache_or_fetch_stale_last_update [OF cfg stale, of up' True]
      cache_or_fetch_stale_home [OF cfg stale, of up']
      cache_or_fetch_direct_trace [OF cfg branch, of up']
    by (simp add: get_packages_state)
qed

text \<open>Thirty-one minutes after a page was cached, with the default window of thirty.\<close>

theorem stale_cache_is_refetched_witness:
  "server_cache sample_lib (after_fetch 200) = (Inr 30, after_fetch 200)
   \<and> elapsed_minutes (after_fetch 200) 1001860 = 31
   \<and> truthy (home (after_fetch 200))
   \<and> snd (get_packages sample_lib (portal 201) 1001860 True (after_fetch 200))
       = (after_fetch 201)\<lparr>last_update := 1001860,
            trace := [Log ''CACHE: DIRECT'', Post URLS_login, Get URLS_home,
                      Log ''CACHE: DIRECT'', Post URLS_login, Get URLS_home]\<rparr>"
proof -
  have el: "elapsed_minutes (after_fetch 200) 1001860 = 31"
    by (simp add: elapsed_minutes_def after_fetch_def)
  then have stale: "elapsed_minutes (after_fetch 200) 1001860 > 30"
    by simp
  have usable: "truthy (home (after_fetch 200))"
    by (simp add: truthy_def ok_def after_fetch_def)
  note refetched = stale_cache_is_refetched [OF sample_window_kept stale
        conjunct1 [OF warm_request [of 201 200]] conjunct2 [OF warm_request [of 201 200]],
        where up' = "portal 201"]
  have "snd (get_packages sample_lib (portal 201) 1001860 True (after_fetch 200))
       = (after_fetch 201)\<lparr>last_update := 1001860,
            trace := [Log ''CACHE: DIRECT'', Post URLS_login, Get URLS_home,
                      Log ''CACHE: DIRECT'', Post URLS_login, Get URLS_home]\<rparr>"
    by (simp only: conjunct1 [OF refetched]) (simp add: after_fetch_def)
  then show ?thesis
    using el usable sample_window_kept by simp
qed

text \<open>
  Claim C7. A call with \<open>use_cache=False\<close>, which is what the route \<^verbatim>\<open>/now\<close> makes, takes the
  fetch branch in any state of the cache: the login request is sent whatever the portal
  does (\<open>up'\<close>), and when the portal answers both requests (\<open>up\<close>) the fetched page and the
  clock overwrite \<^verbatim>\<open>CACHE['home']\<close> and \<^verbatim>\<open>CACHE['last_update']\<close>.
\<close>

theorem now_always_fetches:
  assumes cfg: "server_cache lib s = (Inr window, s1)"
    and post: "http_post up URLS_login (payload s) (cookies s) = Inr jar1"
    and get: "http_get up URLS_home jar1 = Inr (page, jar2)"
  shows "snd (get_packages lib up epoch False s) =
           s1\<lparr>cookies := jar2, home := HResp page, last_update := epoch,
              trace := trace s @ [Log ''CACHE: DIRECT'', Post URLS_login, Get URLS_home]\<rparr>
       \<and> now lib up epoch s = get_packages lib up epoch False s
       \<and> (\<exists>rest. trace (snd (get_packages lib up' epoch False s))
              = trace s @ [Log ''CACHE: DIRECT'', Post URLS_login] @ rest)"
proof -
  have branch: "\<not> (False \<and> truthy (home s) \<and> \<not> elapsed_minutes s epoch > window)"
    by simp
  show ?thesis
    using cache_or_fetch_direct [OF cfg branch post get]
      cache_or_fetch_direct_trace [OF cfg branch, of up']
    by (simp add: get_packages_state now_def)
qed

text \<open>One minute after a page was cached, \<^verbatim>\<open>/now\<close> fetches again and replaces it.\<close>

theorem now_always_fetches_witness:
  "server_cache sample_lib (after_fetch 200) = (Inr 30, after_fetch 200)
   \<and> elapsed_minutes (after_fetch 200) 1000060 = 1
   \<and> truthy (home (after_fetch 200))
   \<and> snd (now sample_lib (portal 201) 1000060 (after_fetch 200))
       = (after_fetch 201)\<lparr>last_update := 1000060,
            trace := [Log ''CACHE: DIRECT'', Post URLS_login, Get URLS_home,
                      Log ''CACHE: DIRECT'', Post URLS_login, Get URLS_home]\<rparr>"
proof -
  have el: "elapsed_minutes (after_fetch 200) 1000060 = 1"
    by (simp add: elapsed_minutes_def after_fetch_def)
  have usable: "truthy (home (after_fetch 200))"
    by (simp add: truthy_def ok_def after_fetch_def)
  note fetched = now_always_fetches [OF sample_window_kept
        conjunct1 [OF warm_request [of 201 200]] conjunct2 [OF warm_request [of 201 200]],
        where epoch = 1000060 and up' = "portal 201"]
  have "snd (now sample_lib (portal 201) 1000060 (after_fetch 200))
          = snd (get_packages sample_lib (portal 201) 1000060 False (after_fetch 200))"
    using fetched by simp
  also have "\<dots> = (after_fetch 201)\<lparr>last_update := 1000060,
            trace := [Log ''CACHE: DIRECT'', Post URLS_login, Get URLS_home,
                      Log ''CACHE: DIRECT'', Post URLS_login, Get URLS_home]\<rparr>"
    by (simp only: conjunct1 [OF fetched]) (simp add: after_fetch_def)
  finally show ?thesis
    using el usable sample_window_kept by simp
qed

text \<open>
  Claim C8. The route \<^verbatim>\<open>/clear\<close> returns the string \<^verbatim>\<open>OK\<close> and sets \<^verbatim>\<open>CACHE['home']\<close> to the
  empty string; \<^verbatim>\<open>CACHE['last_update']\<close> and the rest of the state stay as they were.
\<close>

theorem clear_empties_page_only:
  "fst (clear s) = ''OK''
   \<and> home (snd (clear s)) = HStr ''''
   \<and> last_update (snd (clear s)) = last_update s
   \<and> snd (clear s) = s\<lparr>home := HStr ''''\<rparr>"
  by (simp add: clear_def)

text \<open>Clearing the state in which a page is cached.\<close>

theorem clear_empties_page_only_witness:
  "fst (clear (after_fetch 200)) = ''OK''
   \<and> home (snd (clear (after_fetch 200))) = HStr ''''
   \<and> last_update (snd (clear (after_fetch 200))) = 1000000
   \<and> cookies (snd (clear (after_fetch 200))) = [(''WebSite_autologin'', ''1'')]"
  using clear_empties_page_only [of "after_fetch 200"]
  by (simp add: after_fetch_def)

text \<open>
  Claim C9. Whenever a call to \<^verbatim>\<open>get_packages\<close> returns a dictionary that has the key
  \<^verbatim>\<open>logged_in\<close>, the value under that key is \<^verbatim>\<open>True\<close>.
\<close>

theorem logged_in_only_true:
  assumes "get_packages lib up epoch use_cache s = (Inr result, s1)"
    and "dict_get result ''logged_in'' = Some v"
  shows "v = PBool True"
  using assms
  by (auto simp: get_packages_def INITIAL_STATE_def dict_get_def
      split: prod.splits sum.splits if_splits)

text \<open>The listing of the sample page has the key, with the value \<^verbatim>\<open>True\<close>.\<close>

theorem logged_in_only_true_witness:
  "\<exists>ds. get_packages sample_lib (portal 200) 1000000 True start_state
           = (Inr (PDict [(''items'', PList ds), (''logged_in'', PBool True)]), after_fetch 200)
        \<and> dict_get (PDict [(''items'', PList ds), (''logged_in'', PBool True)]) ''logged_in''
           = Some (PBool True)"
proof -
  obtain ds where call: "get_packages sample_lib (portal 200) 1000000 True start_state
           = (Inr (PDict [(''items'', PList ds), (''logged_in'', PBool True)]), after_fetch 200)"
    by (simp add: sample_listing)
  obtain v where v: "dict_get (PDict [(''items'', PList ds), (''logged_in'', PBool True)])
                       ''logged_in'' = Some v"
    by (simp add: dict_get_def)
  have "v = PBool True"
    by (rule logged_in_only_true [OF call v])
  with call v show ?thesis
    by blast
qed

text \<open>
  Claim C10. With \<open>use_cache=False\<close> the value returned (or the exception raised) does not
  depend on the two slots of \<^verbatim>\<open>CACHE\<close>: two states that differ in them only, at the same
  clock and in front of the same portal, give the same result.
\<close>

theorem now_result_ignores_cache:
  "fst (get_packages lib up epoch False (s\<lparr>home := h1, last_update := t1\<rparr>))
   = fst (get_packages lib up epoch False (s\<lparr>home := h2, last_update := t2\<rparr>))"
  by (auto simp: get_packages_def cache_or_fetch_def server_cache_def lru_get_config_def
        Let_def login_def session_get_def log_def is_logged_in_def
      split: option.splits sum.splits prod.splits)

text \<open>A state with an old page in the cache and the state with an empty cache.\<close>

theorem now_result_ignores_cache_witness:
  "fst (get_packages sample_lib (portal 200) 1000000 False
          (start_state\<lparr>home := HResp \<lparr>status_code = 200, resp_text = ''old''\<rparr>,
                        last_update := 999999\<rparr>))
   = fst (get_packages sample_lib (portal 200) 1000000 False start_state)"
  using now_result_ignores_cache [where lib = sample_lib and up = "portal 200"
      and epoch = 1000000 and s = start_state
      and ?h1.0 = "HResp \<lparr>status_code = 200, resp_text = ''old''\<rparr>" and ?t1.0 = 999999
      and ?h2.0 = "HStr ''''" and ?t2.0 = 0]
  by (simp add: start_state_def)

section \<open>The configuration loader without a \<^verbatim>\<open>[user]\<close> section\<close>

text \<open>
  Claim C6 says that \<^verbatim>\<open>get_config\<close> returns the default and never raises when a key or its
  section is missing. The code does not do so: line 40 indexes \<^verbatim>\<open>config['user']\<close> before
  any lookup is answered, so that with no \<^verbatim>\<open>[user]\<close> section in the file every call raises
  \<^verbatim>\<open>KeyError\<close>, for every key and default.
\<close>

theorem get_config_needs_user_section:
  assumes "map_of (cf_sections config) ''user'' = None"
  shows "get_config config section_config default_arg = Inl KeyError"
proof -
  have "config_get config ''user.name'' (CStr '''') = Inr (CStr '''')"
    using assms by (simp add: config_get_def split_on_def parser_get_def)
  moreover have "set_item config ''user'' ''name'' (CStr '''') = Inl KeyError"
    using assms by (simp add: set_item_def)
  ultimately show ?thesis
    by (simp add: get_config_def bind_exn_def)
qed

text \<open>An empty or absent file and the lookup of line 51, \<^verbatim>\<open>get_config('user.name')\<close>.\<close>

theorem get_config_needs_user_section_witness:
  "map_of (cf_sections \<lparr>cf_defaults = [], cf_sections = []\<rparr>) ''user'' = None
   \<and> get_config \<lparr>cf_defaults = [], cf_sections = []\<rparr> ''user.name'' (CStr '''') = Inl KeyError"
  using get_config_needs_user_section [of "\<lparr>cf_defaults = [], cf_sections = []\<rparr>"
      "''user.name''" "CStr ''''"]
  by simp

text \<open>With a \<^verbatim>\<open>[user]\<close> section that lacks \<^verbatim>\<open>name\<close>, line 40 has stored the empty string before
  the lookup is made, and the default that was supplied is not what is returned.\<close>

lemma get_config_user_name_default_lost:
  "get_config \<lparr>cf_defaults = [], cf_sections = [(''user'', [])]\<rparr> ''user.name'' (CStr ''x'')
     = Inr (CStr '''')"
  by (simp add: get_config_def config_get_def split_on_def parser_get_def set_item_def
      bind_exn_def optionxform_def lower_char_def)

end
